theory Spec2Isabelle
  imports Complex_Main
begin

section \<open>Values\<close>

text \<open>
  The handler of \<^verbatim>\<open>src/worker.js\<close> reads its input with \<^verbatim>\<open>request.json()\<close>, so the
  values it works on are parsed JSON: null, booleans, numbers, strings, arrays and
  objects. An object is the list of its own properties; a read takes the first binding
  of a name. A property that is absent reads as \<^verbatim>\<open>undefined\<close>, modelled as \<open>None\<close>.

  A number of the input is given by the value of the parsed double, a real. Where it
  is an operand of arithmetic it is rounded to the nearest double, so that a value
  written in decimal stands for the double that the parser gives.
\<close>

datatype json =
    JNull
  | JBool bool
  | JNum real
  | JStr string
  | JArr "json list"
  | JObj "(string \<times> json) list"

section \<open>Numbers\<close>

text \<open>
  A computed number is a binary64 value: NaN, one of the two infinities, or a finite
  double, given by its exact value. The two zeros are one value here: the handler never
  divides and never tells them apart. Every arithmetic result is the exact result
  rounded to the nearest double, ties to the even significand, and a decimal literal
  of the source denotes the double nearest to it.
\<close>

datatype jsnum = NaN | PosInf | NegInf | Fin real

definition pow2 :: "int \<Rightarrow> real" where
  "pow2 k = (if 0 \<le> k then 2 ^ nat k else 1 / 2 ^ nat (- k))"

text \<open>The binary exponent of \<open>a > 0\<close>: the \<open>e\<close> with \<open>2^e \<le> a < 2^(e+1)\<close>.\<close>

function scaleDown :: "real \<Rightarrow> int \<Rightarrow> int" where
  "scaleDown a e = (if 2 \<le> a then scaleDown (a / 2) (e + 1) else e)"
  by pat_completeness auto
termination
proof (relation "measure (\<lambda>(a, e). nat \<lfloor>a\<rfloor>)")
  fix a :: real and e :: int
  assume "2 \<le> a"
  then have "\<lfloor>a / 2\<rfloor> < \<lfloor>a\<rfloor>" by linarith
  moreover have "0 < \<lfloor>a\<rfloor>" using \<open>2 \<le> a\<close> by linarith
  ultimately show "((a / 2, e + 1), (a, e)) \<in> measure (\<lambda>(a, e). nat \<lfloor>a\<rfloor>)" by simp
qed simp

function scaleUp :: "real \<Rightarrow> int \<Rightarrow> int" where
  "scaleUp a e = (if 0 < a \<and> a < 1 then scaleUp (a * 2) (e - 1) else e)"
  by pat_completeness auto
termination
proof (relation "measure (\<lambda>(a, e). nat \<lceil>1 / a\<rceil>)")
  fix a :: real and e :: int
  assume h: "0 < a \<and> a < 1"
  define b where "b = 1 / a"
  have b: "1 < b" using h by (simp add: b_def)
  have half: "1 / (a * 2) = b / 2" by (simp add: b_def)
  have "2 \<le> \<lceil>b\<rceil>" using b by linarith
  then have "(2 :: real) \<le> of_int \<lceil>b\<rceil>" by linarith
  moreover have "b \<le> of_int \<lceil>b\<rceil>" by (rule le_of_int_ceiling)
  ultimately have "b / 2 \<le> of_int \<lceil>b\<rceil> - 1" by linarith
  then have "b / 2 \<le> of_int (\<lceil>b\<rceil> - 1)" by simp
  then have "\<lceil>b / 2\<rceil> \<le> \<lceil>b\<rceil> - 1" by (simp only: ceiling_le_iff)
  moreover have "0 < \<lceil>b\<rceil>" using b by linarith
  ultimately have "nat \<lceil>b / 2\<rceil> < nat \<lceil>b\<rceil>" by linarith
  then show "((a * 2, e - 1), (a, e)) \<in> measure (\<lambda>(a, e). nat \<lceil>1 / a\<rceil>)"
    by (simp add: half b_def [symmetric])
qed simp

declare scaleDown.simps [simp del] scaleUp.simps [simp del]

definition exponentOf :: "real \<Rightarrow> int" where
  "exponentOf a = (if 1 \<le> a then scaleDown a 0 else scaleUp a 0)"

text \<open>The nearest integer, a tie going to the even one.\<close>

definition roundHalfEven :: "real \<Rightarrow> int" where
  "roundHalfEven y =
     (let f = \<lfloor>y\<rfloor>; d = y - of_int f
      in if d < 1 / 2 then f else if 1 / 2 < d then f + 1 else if even f then f else f + 1)"

text \<open>
  The doubles next to \<open>a > 0\<close> are the multiples of \<open>2^q\<close>, where \<open>q\<close> is the
  exponent of \<open>a\<close> less the 52 fraction bits, and \<open>-1074\<close> in the subnormal range
  below \<open>2^-1022\<close>.
\<close>

definition quantum :: "real \<Rightarrow> int" where
  "quantum a = (if a < pow2 (- 1022) then - 1074 else exponentOf a - 52)"

definition nearest :: "real \<Rightarrow> int \<Rightarrow> real" where
  "nearest a q = of_int (roundHalfEven (a / pow2 q)) * pow2 q"

text \<open>A rounded magnitude of \<open>2^1024\<close> or more is an infinity.\<close>

definition overflow :: "bool \<Rightarrow> real \<Rightarrow> jsnum" where
  "overflow pos v =
     (if pow2 1024 \<le> v then (if pos then PosInf else NegInf)
      else Fin (if pos then v else - v))"

definition round64 :: "real \<Rightarrow> jsnum" where
  "round64 x =
     (if x = 0 then Fin 0 else overflow (0 < x) (nearest \<bar>x\<bar> (quantum \<bar>x\<bar>)))"

text \<open>\<^verbatim>\<open>a * b\<close>\<close>

fun js_mul :: "jsnum \<Rightarrow> jsnum \<Rightarrow> jsnum" where
  "js_mul NaN _ = NaN"
| "js_mul _ NaN = NaN"
| "js_mul (Fin a) (Fin b) = round64 (a * b)"
| "js_mul (Fin a) PosInf = (if a = 0 then NaN else if 0 < a then PosInf else NegInf)"
| "js_mul (Fin a) NegInf = (if a = 0 then NaN else if 0 < a then NegInf else PosInf)"
| "js_mul PosInf (Fin b) = (if b = 0 then NaN else if 0 < b then PosInf else NegInf)"
| "js_mul NegInf (Fin b) = (if b = 0 then NaN else if 0 < b then NegInf else PosInf)"
| "js_mul PosInf PosInf = PosInf"
| "js_mul PosInf NegInf = NegInf"
| "js_mul NegInf PosInf = NegInf"
| "js_mul NegInf NegInf = PosInf"

text \<open>\<^verbatim>\<open>a + b\<close>\<close>

fun js_add :: "jsnum \<Rightarrow> jsnum \<Rightarrow> jsnum" where
  "js_add NaN _ = NaN"
| "js_add _ NaN = NaN"
| "js_add (Fin a) (Fin b) = round64 (a + b)"
| "js_add PosInf NegInf = NaN"
| "js_add NegInf PosInf = NaN"
| "js_add PosInf _ = PosInf"
| "js_add _ PosInf = PosInf"
| "js_add NegInf _ = NegInf"
| "js_add _ NegInf = NegInf"

text \<open>\<^verbatim>\<open>a > b\<close>: false as soon as one side is NaN.\<close>

fun js_gt :: "jsnum \<Rightarrow> jsnum \<Rightarrow> bool" where
  "js_gt (Fin a) (Fin b) = (a > b)"
| "js_gt PosInf (Fin _) = True"
| "js_gt PosInf NegInf = True"
| "js_gt (Fin _) NegInf = True"
| "js_gt _ _ = False"

text \<open>\<^verbatim>\<open>a === b\<close> on numbers: NaN equals nothing, itself included.\<close>

fun js_eq :: "jsnum \<Rightarrow> jsnum \<Rightarrow> bool" where
  "js_eq NaN _ = False"
| "js_eq _ NaN = False"
| "js_eq a b = (a = b)"

section \<open>Reading values\<close>

text \<open>A thrown \<^verbatim>\<open>Error\<close> (or \<^verbatim>\<open>TypeError\<close>, which is an \<^verbatim>\<open>Error\<close> too) with its message.\<close>

datatype exn = Error string

text \<open>\<^verbatim>\<open>typeof v === 'object' && v !== null\<close>: arrays and objects.\<close>

fun isObject :: "json \<Rightarrow> bool" where
  "isObject (JArr _) = True"
| "isObject (JObj _) = True"
| "isObject _ = False"

text \<open>
  \<^verbatim>\<open>server[field]\<close> for one of the four required field names, on a value that passed
  the \<^verbatim>\<open>typeof\<close> test. A parsed array has index properties only and \<^verbatim>\<open>Array.prototype\<close>
  has none of the four names, so the read gives \<^verbatim>\<open>undefined\<close> there.
\<close>

fun getField :: "json \<Rightarrow> string \<Rightarrow> json option" where
  "getField (JObj kvs) f = map_of kvs f"
| "getField _ f = None"

text \<open>\<^verbatim>\<open>ToBoolean\<close>: undefined, null, false, 0 and the empty string are falsy.\<close>

fun truthy :: "json option \<Rightarrow> bool" where
  "truthy None = False"
| "truthy (Some JNull) = False"
| "truthy (Some (JBool b)) = b"
| "truthy (Some (JNum x)) = (x \<noteq> 0)"
| "truthy (Some (JStr s)) = (s \<noteq> [])"
| "truthy (Some (JArr _)) = True"
| "truthy (Some (JObj _)) = True"

section \<open>The factor table\<close>

record type_factors =
  baseTime :: real
  complexityMultiplier :: real

text \<open>
  \<^verbatim>\<open>ESTIMATION_FACTORS[server.type]\<close>. The read happens after validation, which admits
  the three type names only.
\<close>

fun typeFactorsOf :: "json option \<Rightarrow> type_factors option" where
  "typeFactorsOf (Some (JStr s)) =
     (if s = ''rack'' then Some \<lparr>baseTime = 2, complexityMultiplier = 1.2\<rparr>
      else if s = ''blade'' then Some \<lparr>baseTime = 3, complexityMultiplier = 1.5\<rparr>
      else if s = ''custom'' then Some \<lparr>baseTime = 4, complexityMultiplier = 2\<rparr>
      else None)"
| "typeFactorsOf _ = None"

text \<open>
  The key of a computed property read, \<^verbatim>\<open>ToPropertyKey\<close>. A string is its own key,
  a boolean is \<^verbatim>\<open>true\<close> or \<^verbatim>\<open>false\<close>, a parsed object is \<^verbatim>\<open>[object Object]\<close> unless
  it has an own property \<^verbatim>\<open>toString\<close> (never callable in parsed JSON), in which case
  the conversion throws a \<^verbatim>\<open>TypeError\<close>. An array is the join of its elements with
  commas, null elements giving the empty string. The decimal text of a number is not
  spelled out: \<open>Opaque\<close> stands for a key that contains one. Such a key is made of a
  number's characters, or has a comma, so it is no name of the manufacturers table
  and no name of \<^verbatim>\<open>Object.prototype\<close>.
\<close>

datatype pkey = Key string | Opaque | Throws

fun joinKey :: "pkey \<Rightarrow> pkey option \<Rightarrow> pkey" where
  "joinKey Throws _ = Throws"
| "joinKey a None = a"
| "joinKey _ (Some Throws) = Throws"
| "joinKey (Key s) (Some (Key t)) = Key (s @ '','' @ t)"
| "joinKey _ (Some _) = Opaque"

fun toPropertyKey :: "json \<Rightarrow> pkey" where
  "toPropertyKey JNull = Key ''null''"
| "toPropertyKey (JBool b) = Key (if b then ''true'' else ''false'')"
| "toPropertyKey (JNum x) = Opaque"
| "toPropertyKey (JStr s) = Key s"
| "toPropertyKey (JObj kvs) =
     (if map_of kvs ''toString'' \<noteq> None then Throws else Key ''[object Object]'')"
| "toPropertyKey (JArr []) = Key []"
| "toPropertyKey (JArr (x # xs)) =
     joinKey (if x = JNull then Key [] else toPropertyKey x)
             (if xs = [] then None else Some (toPropertyKey (JArr xs)))"

text \<open>
  What a read of \<^verbatim>\<open>ESTIMATION_FACTORS.manufacturers[key]\<close> gives: \<^verbatim>\<open>undefined\<close>, one of
  the numbers of the table, or a member that the object literal inherits from
  \<^verbatim>\<open>Object.prototype\<close>.
\<close>

datatype propval = PUndefined | PNumber real | PBuiltin string

definition objectPrototypeNames :: "string list" where
  "objectPrototypeNames =
     [''constructor'', ''hasOwnProperty'', ''isPrototypeOf'', ''propertyIsEnumerable'',
      ''toLocaleString'', ''toString'', ''valueOf'', ''__proto__'',
      ''__defineGetter__'', ''__defineSetter__'', ''__lookupGetter__'', ''__lookupSetter__'']"

definition typeErrorMessage :: string where
  "typeErrorMessage = ''Cannot convert object to primitive value''"

fun manufacturersGet :: "pkey \<Rightarrow> exn + propval" where
  "manufacturersGet Throws = Inl (Error typeErrorMessage)"
| "manufacturersGet Opaque = Inr PUndefined"
| "manufacturersGet (Key s) =
     Inr (if s = ''Dell'' then PNumber 0.9
          else if s = ''HP'' then PNumber 1.0
          else if s = ''Lenovo'' then PNumber 1.1
          else if s = ''SuperMicro'' then PNumber 1.2
          else if s \<in> set objectPrototypeNames then PBuiltin s
          else PUndefined)"

text \<open>\<^verbatim>\<open>v || 1\<close>: the value itself when it is truthy, \<open>1\<close> otherwise.\<close>

fun orOne :: "propval \<Rightarrow> propval" where
  "orOne PUndefined = PNumber 1"
| "orOne (PNumber x) = (if x = 0 then PNumber 1 else PNumber x)"
| "orOne (PBuiltin s) = PBuiltin s"

text \<open>
  \<^verbatim>\<open>ToNumber\<close> of an operand of \<^verbatim>\<open>*\<close>. A number of the table is the double that its
  literal denotes. A function or object of \<^verbatim>\<open>Object.prototype\<close> converts to a string
  that is no numeral, hence to NaN.
\<close>

fun toNumber :: "propval \<Rightarrow> jsnum" where
  "toNumber (PNumber x) = round64 x"
| "toNumber (PBuiltin _) = NaN"
| "toNumber PUndefined = NaN"

section \<open>Validation\<close>

definition requiredFields :: "string list" where
  "requiredFields = [''type'', ''manufacturer'', ''model'', ''quantity'']"

text \<open>The loop over the required fields: the first falsy one throws.\<close>

fun checkFields :: "json \<Rightarrow> string list \<Rightarrow> exn + unit" where
  "checkFields server [] = Inr ()"
| "checkFields server (field # rest) =
     (if \<not> truthy (getField server field)
      then Inl (Error (''Missing required field: '' @ field))
      else checkFields server rest)"

text \<open>\<^verbatim>\<open>['rack', 'blade', 'custom'].includes(v)\<close>: strict equality with one of the names.\<close>

fun isServerType :: "json option \<Rightarrow> bool" where
  "isServerType (Some (JStr s)) = (s \<in> set [''rack'', ''blade'', ''custom''])"
| "isServerType _ = False"

text \<open>\<^verbatim>\<open>typeof v !== 'number' || v <= 0\<close>\<close>

fun notPositiveNumber :: "json option \<Rightarrow> bool" where
  "notPositiveNumber (Some (JNum q)) = (q \<le> 0)"
| "notPositiveNumber _ = True"

definition validateServer :: "json \<Rightarrow> exn + unit" where
  "validateServer server =
     (if \<not> isObject server then Inl (Error ''Invalid server object'')
      else case checkFields server requiredFields of
        Inl e \<Rightarrow> Inl e
      | Inr _ \<Rightarrow>
          if \<not> isServerType (getField server ''type'') then Inl (Error ''Invalid server type'')
          else if notPositiveNumber (getField server ''quantity'')
          then Inl (Error ''Quantity must be a positive number'')
          else Inr ())"

section \<open>Estimation\<close>

record server_estimate =
  type :: "json option"
  manufacturer :: "json option"
  model :: "json option"
  quantity :: "json option"
  estimatedTime :: jsnum

record estimation =
  totalTime :: jsnum
  breakdownByServer :: "server_estimate list"
  complexity :: string

text \<open>
  The operand \<^verbatim>\<open>server.quantity\<close> of the product. Validation has established that it
  is a number when the product is evaluated.
\<close>

fun quantityOperand :: "json option \<Rightarrow> jsnum" where
  "quantityOperand (Some (JNum q)) = round64 q"
| "quantityOperand _ = NaN"

text \<open>
  \<^verbatim>\<open>baseTime * manufacturerFactor * typeFactors.complexityMultiplier * server.quantity\<close>,
  multiplied from the left, each product rounded. The two numbers of the type's entry
  are the doubles that their literals denote.
\<close>

definition serverTimeOf :: "type_factors \<Rightarrow> propval \<Rightarrow> json option \<Rightarrow> jsnum" where
  "serverTimeOf typeFactors manufacturerFactor q =
     js_mul (js_mul (js_mul (round64 (baseTime typeFactors)) (toNumber manufacturerFactor))
                    (round64 (complexityMultiplier typeFactors)))
            (quantityOperand q)"

text \<open>The key of the read \<^verbatim>\<open>ESTIMATION_FACTORS.manufacturers[server.manufacturer]\<close>.\<close>

definition manufacturerKey :: "json \<Rightarrow> pkey" where
  "manufacturerKey server =
     (case getField server ''manufacturer'' of
        None \<Rightarrow> Key ''undefined''
      | Some m \<Rightarrow> toPropertyKey m)"

text \<open>
  The callback of \<^verbatim>\<open>servers.map\<close>. It closes over \<^verbatim>\<open>totalTime\<close>, which is passed in and
  returned here. A type outside the table cannot reach the read of \<^verbatim>\<open>baseTime\<close>; the
  \<^verbatim>\<open>TypeError\<close> of reading a property of \<^verbatim>\<open>undefined\<close> stands there.
\<close>

definition estimateServer :: "json \<Rightarrow> jsnum \<Rightarrow> exn + (server_estimate \<times> jsnum)" where
  "estimateServer server running =
     (case validateServer server of
        Inl e \<Rightarrow> Inl e
      | Inr _ \<Rightarrow>
         (case manufacturersGet (manufacturerKey server) of
            Inl e \<Rightarrow> Inl e
          | Inr v \<Rightarrow>
             (case typeFactorsOf (getField server ''type'') of
                None \<Rightarrow> Inl (Error ''Cannot read properties of undefined'')
              | Some typeFactors \<Rightarrow>
                  let serverTime = serverTimeOf typeFactors (orOne v) (getField server ''quantity'')
                  in Inr (\<lparr>type = getField server ''type'',
                           manufacturer = getField server ''manufacturer'',
                           model = getField server ''model'',
                           quantity = getField server ''quantity'',
                           estimatedTime = serverTime\<rparr>,
                          js_add running serverTime))))"

text \<open>\<^verbatim>\<open>servers.map(callback)\<close>: left to right, stopping at the first throw.\<close>

fun mapServers ::
  "json list \<Rightarrow> jsnum \<Rightarrow> server_estimate list \<Rightarrow> exn + (server_estimate list \<times> jsnum)" where
  "mapServers [] running acc = Inr (acc, running)"
| "mapServers (server # servers) running acc =
     (case estimateServer server running of
        Inl e \<Rightarrow> Inl e
      | Inr (est, running') \<Rightarrow> mapServers servers running' (acc @ [est]))"

text \<open>High is tested first, then Medium; Low is the initial value.\<close>

definition classify :: "jsnum \<Rightarrow> string" where
  "classify running =
     (if js_gt running (Fin 20) then ''High''
      else if js_gt running (Fin 10) then ''Medium''
      else ''Low'')"

definition calculateEstimation :: "json list \<Rightarrow> exn + estimation" where
  "calculateEstimation servers =
     (case mapServers servers (Fin 0) [] of
        Inl e \<Rightarrow> Inl e
      | Inr (breakdown, running) \<Rightarrow>
          Inr \<lparr>totalTime = running, breakdownByServer = breakdown, complexity = classify running\<rparr>)"

section \<open>The request handler\<close>

text \<open>
  A request is its method (\<open>httpMethod\<close>) and the outcome of \<^verbatim>\<open>request.json()\<close>: the parsed value, or
  the error that parsing throws. A response body is the value handed to
  \<^verbatim>\<open>JSON.stringify\<close> (which writes NaN and the infinities as \<^verbatim>\<open>null\<close>), a text, or
  nothing.
\<close>

record request =
  httpMethod :: string
  parsed :: "exn + json"

datatype body = NoBody | TextBody string | ResultBody estimation | ErrorBody string

record response =
  status :: nat
  headers :: "(string \<times> string) list"
  payload :: body

definition corsHeaders :: "(string \<times> string) list" where
  "corsHeaders =
     [(''Access-Control-Allow-Origin'', ''*''),
      (''Access-Control-Allow-Methods'', ''POST,OPTIONS''),
      (''Access-Control-Max-Age'', ''86400''),
      (''Access-Control-Allow-Headers'', ''Content-Type'')]"

definition jsonHeaders :: "(string \<times> string) list" where
  "jsonHeaders = corsHeaders @ [(''Content-Type'', ''application/json'')]"

text \<open>The \<^verbatim>\<open>try\<close> block: parse, test for an array, estimate.\<close>

definition tryBlock :: "request \<Rightarrow> exn + estimation" where
  "tryBlock req =
     (case parsed req of
        Inl e \<Rightarrow> Inl e
      | Inr (JArr servers) \<Rightarrow> calculateEstimation servers
      | Inr _ \<Rightarrow> Inl (Error ''Input must be an array of servers''))"

definition fetch :: "request \<Rightarrow> response" where
  "fetch req =
     (if httpMethod req = ''OPTIONS''
      then \<lparr>status = 200, headers = corsHeaders, payload = NoBody\<rparr>
      else if httpMethod req \<noteq> ''POST''
      then \<lparr>status = 405, headers = corsHeaders, payload = TextBody ''Method Not Allowed''\<rparr>
      else case tryBlock req of
        Inr result \<Rightarrow> \<lparr>status = 200, headers = jsonHeaders, payload = ResultBody result\<rparr>
      | Inl (Error message) \<Rightarrow> \<lparr>status = 400, headers = jsonHeaders, payload = ErrorBody message\<rparr>)"

section \<open>The factor of a manufacturer, as the specification words it\<close>

text \<open>
  The specification's reading of the manufacturers table: the table's value for a
  known manufacturer, 1.0 for any other name. It is compared with the read of the
  source, \<open>manufacturersGet\<close> followed by \<open>orOne\<close>.
\<close>

definition spec_manufacturerFactor :: "string \<Rightarrow> real" where
  "spec_manufacturerFactor m =
     (if m = ''Dell'' then 0.9 else if m = ''HP'' then 1.0
      else if m = ''Lenovo'' then 1.1 else if m = ''SuperMicro'' then 1.2 else 1.0)"

section \<open>Sample requests\<close>

definition rackDell :: json where
  "rackDell = JObj [(''type'', JStr ''rack''), (''manufacturer'', JStr ''Dell''),
                    (''model'', JStr ''R740''), (''quantity'', JNum 1)]"

definition bladeUnknown :: json where
  "bladeUnknown = JObj [(''type'', JStr ''blade''), (''manufacturer'', JStr ''Unknown''),
                        (''model'', JStr ''X''), (''quantity'', JNum 5)]"

definition rackConstructor :: json where
  "rackConstructor = JObj [(''type'', JStr ''rack''), (''manufacturer'', JStr ''constructor''),
                           (''model'', JStr ''X''), (''quantity'', JNum 1)]"

definition rackZero :: json where
  "rackZero = JObj [(''type'', JStr ''rack''), (''manufacturer'', JStr ''Dell''),
                    (''model'', JStr ''R740''), (''quantity'', JNum 0)]"

definition rackNoManufacturer :: json where
  "rackNoManufacturer = JObj [(''type'', JStr ''rack''), (''manufacturer'', JStr ''''),
                              (''model'', JStr ''R740''), (''quantity'', JNum 1)]"


definition rackMinusOne :: json where
  "rackMinusOne = JObj [(''type'', JStr ''rack''), (''manufacturer'', JStr ''Dell''),
                        (''model'', JStr ''R740''), (''quantity'', JNum (- 1))]"

definition rackFive :: json where
  "rackFive = JObj [(''type'', JStr ''rack''), (''manufacturer'', JStr ''Dell''),
                    (''model'', JStr ''R740''), (''quantity'', JStr ''five'')]"

definition rackLenovo :: json where
  "rackLenovo = JObj [(''type'', JStr ''rack''), (''manufacturer'', JStr ''Lenovo''),
                      (''model'', JStr ''X''), (''quantity'', JNum 1)]"

definition bladeLenovo :: json where
  "bladeLenovo = JObj [(''type'', JStr ''blade''), (''manufacturer'', JStr ''Lenovo''),
                       (''model'', JStr ''X''), (''quantity'', JNum 1)]"

definition customDell :: json where
  "customDell = JObj [(''type'', JStr ''custom''), (''manufacturer'', JStr ''Dell''),
                      (''model'', JStr ''X''), (''quantity'', JNum 1)]"


section \<open>Properties of the rounding\<close>

lemma scaleDown_bounds:
  "1 \<le> a \<Longrightarrow> \<exists>n. scaleDown a e = e + int n \<and> 2 ^ n \<le> a \<and> a < 2 ^ Suc n"
proof (induction a e rule: scaleDown.induct)
  case (1 a e)
  show ?case
  proof (cases "2 \<le> a")
    case True
    then have "1 \<le> a / 2" by simp
    from "1.IH" [OF True this] obtain n where
      n: "scaleDown (a / 2) (e + 1) = e + 1 + int n" "2 ^ n \<le> a / 2" "a / 2 < 2 ^ Suc n"
      by blast
    have "scaleDown a e = e + int (Suc n)" using True n(1) by (subst scaleDown.simps) simp
    moreover have "2 ^ Suc n \<le> a" "a < 2 ^ Suc (Suc n)" using n(2,3) by simp_all
    ultimately show ?thesis by blast
  next
    case False
    then have "scaleDown a e = e + int 0" by (subst scaleDown.simps) simp
    moreover have "2 ^ 0 \<le> a" "a < 2 ^ Suc 0" using False "1.prems" by simp_all
    ultimately show ?thesis by blast
  qed
qed

lemma scaleUp_bounds:
  "0 < a \<Longrightarrow> a < 2 \<Longrightarrow> \<exists>n. scaleUp a e = e - int n \<and> 1 \<le> a * 2 ^ n \<and> a * 2 ^ n < 2"
proof (induction a e rule: scaleUp.induct)
  case (1 a e)
  show ?case
  proof (cases "a < 1")
    case True
    then have c: "0 < a \<and> a < 1" using "1.prems" by simp
    have "0 < a * 2" "a * 2 < 2" using c by simp_all
    from "1.IH" [OF c this] obtain n where
      n: "scaleUp (a * 2) (e - 1) = e - 1 - int n" "1 \<le> a * 2 * 2 ^ n" "a * 2 * 2 ^ n < 2"
      by blast
    have "scaleUp a e = e - int (Suc n)" using c n(1) by (subst scaleUp.simps) simp
    moreover have "1 \<le> a * 2 ^ Suc n" "a * 2 ^ Suc n < 2" using n(2,3) by (simp_all add: mult.assoc)
    ultimately show ?thesis by blast
  next
    case False
    then have "scaleUp a e = e - int 0" by (subst scaleUp.simps) simp
    moreover have "1 \<le> a * 2 ^ 0" "a * 2 ^ 0 < 2" using False "1.prems" by simp_all
    ultimately show ?thesis by blast
  qed
qed

lemma exponentOf_bounds:
  assumes "0 < a"
  shows "pow2 (exponentOf a) \<le> a \<and> a < pow2 (exponentOf a + 1)"
proof (cases "1 \<le> a")
  case True
  from scaleDown_bounds [OF True, of 0] obtain n where
    "scaleDown a 0 = int n" "2 ^ n \<le> a" "a < 2 ^ Suc n" by auto
  then show ?thesis using True by (simp add: exponentOf_def pow2_def nat_add_distrib)
next
  case False
  then have "a < 2" by simp
  from scaleUp_bounds [OF assms this, of 0] obtain n where
    n: "scaleUp a 0 = - int n" "1 \<le> a * 2 ^ n" "a * 2 ^ n < 2" by auto
  have "n \<noteq> 0" using n(2) False by (cases n) auto
  then obtain k where k: "n = Suc k" by (cases n) auto
  have "1 / 2 ^ n \<le> a" using n(2) by (simp add: field_simps)
  moreover have "a < 1 / 2 ^ k" using n(3) k by (simp add: field_simps)
  moreover have p: "pow2 (- int m) = 1 / 2 ^ m" for m by (simp add: pow2_def)
  have "- int n + 1 = - int k" using k by simp
  then have "pow2 (- int n + 1) = 1 / 2 ^ k" by (simp only: p)
  moreover have "pow2 (- int n) = 1 / 2 ^ n" by (rule p)
  moreover have "exponentOf a = - int n" using False n(1) by (simp add: exponentOf_def)
  ultimately show ?thesis by simp
qed

lemma roundHalfEven_nearest: "\<bar>of_int (roundHalfEven y) - y\<bar> \<le> 1 / 2"
  unfolding roundHalfEven_def Let_def by (simp split: if_splits)

lemma pow2_pos: "0 < pow2 q"
  by (simp add: pow2_def)

lemma nearest_error: "\<bar>nearest a q - a\<bar> \<le> pow2 q / 2"
proof -
  have "nearest a q - a = (of_int (roundHalfEven (a / pow2 q)) - a / pow2 q) * pow2 q"
    using pow2_pos [of q] by (simp add: nearest_def field_simps)
  then have "\<bar>nearest a q - a\<bar> = \<bar>of_int (roundHalfEven (a / pow2 q)) - a / pow2 q\<bar> * pow2 q"
    using pow2_pos [of q] by (simp add: abs_mult)
  also have "\<dots> \<le> 1 / 2 * pow2 q"
    using roundHalfEven_nearest [of "a / pow2 q"] pow2_pos [of q]
    by (intro mult_right_mono) simp_all
  finally show ?thesis by simp
qed

section \<open>Properties of validation and of the loop\<close>

lemma checkFields_Inr_iff:
  "checkFields server fs = Inr () \<longleftrightarrow> (\<forall>f \<in> set fs. truthy (getField server f))"
  by (induction fs) auto

lemma checkFields_first_missing:
  "find (\<lambda>g. \<not> truthy (getField server g)) fs = Some g
   \<Longrightarrow> checkFields server fs = Inl (Error (''Missing required field: '' @ g))"
  by (induction fs) (auto split: if_splits)

lemma validateServer_Inr_iff:
  "validateServer server = Inr () \<longleftrightarrow>
     isObject server \<and> (\<forall>f \<in> set requiredFields. truthy (getField server f))
     \<and> isServerType (getField server ''type'')
     \<and> \<not> notPositiveNumber (getField server ''quantity'')"
  using checkFields_Inr_iff [of server requiredFields]
  by (cases "checkFields server requiredFields") (auto simp: validateServer_def)

lemma validated_quantity:
  "validateServer server = Inr () \<Longrightarrow> \<exists>q. getField server ''quantity'' = Some (JNum q) \<and> 0 < q"
  unfolding validateServer_Inr_iff
  by (cases "getField server ''quantity''" rule: notPositiveNumber.cases) auto

lemma validated_type:
  "validateServer server = Inr () \<Longrightarrow>
     \<exists>s. getField server ''type'' = Some (JStr s) \<and> s \<in> {''rack'', ''blade'', ''custom''}"
  unfolding validateServer_Inr_iff
  by (cases "getField server ''type''" rule: isServerType.cases) auto

lemma validated_typeFactors:
  "validateServer server = Inr () \<Longrightarrow> \<exists>tf. typeFactorsOf (getField server ''type'') = Some tf
      \<and> 0 < baseTime tf \<and> 0 < complexityMultiplier tf"
  by (drule validated_type) auto

lemma estimateServer_Inl_validate:
  "validateServer server = Inl e \<Longrightarrow> estimateServer server t = Inl e"
  by (simp add: estimateServer_def)

lemma estimateServer_returns:
  assumes "validateServer server = Inr ()" and "manufacturerKey server \<noteq> Throws"
  shows "\<exists>est. estimateServer server t = Inr (est, js_add t (estimatedTime est))"
proof -
  obtain tf where tf: "typeFactorsOf (getField server ''type'') = Some tf"
    using validated_typeFactors [OF assms(1)] by blast
  obtain v where v: "manufacturersGet (manufacturerKey server) = Inr v"
    using assms(2) by (cases "manufacturerKey server") auto
  show ?thesis
    by (simp add: estimateServer_def assms(1) tf v Let_def)
qed

lemma estimateServer_Inr_total:
  "estimateServer server t = Inr (est, t') \<Longrightarrow> t' = js_add t (estimatedTime est)"
  by (auto simp: estimateServer_def Let_def split: sum.splits option.splits)

lemma estimateServer_fails_anywhere:
  "estimateServer server t = Inl e \<Longrightarrow> estimateServer server t' = Inl e"
  by (auto simp: estimateServer_def Let_def split: sum.splits option.splits)

lemma mapServers_sum:
  "mapServers servers t acc = Inr (b, t') \<Longrightarrow>
     \<exists>ests. b = acc @ ests \<and> length ests = length servers
        \<and> t' = foldl js_add t (map estimatedTime ests)"
proof (induction servers arbitrary: t acc)
  case Nil
  then show ?case by simp
next
  case (Cons s ss)
  from Cons.prems obtain est t1 where
    e: "estimateServer s t = Inr (est, t1)" and m: "mapServers ss t1 (acc @ [est]) = Inr (b, t')"
    by (auto split: sum.splits)
  from Cons.IH [OF m] obtain ests where
    "b = (acc @ [est]) @ ests" "length ests = length ss" "t' = foldl js_add t1 (map estimatedTime ests)"
    by blast
  moreover have "t1 = js_add t (estimatedTime est)" using e by (rule estimateServer_Inr_total)
  ultimately show ?case
    by (intro exI [of _ "est # ests"]) simp
qed

lemma mapServers_stops:
  assumes "\<forall>s \<in> set pre. validateServer s = Inr () \<and> manufacturerKey s \<noteq> Throws"
      and "validateServer bad = Inl e"
  shows "mapServers (pre @ bad # post) t acc = Inl e"
  using assms(1)
proof (induction pre arbitrary: t acc)
  case Nil
  then show ?case by (simp add: estimateServer_Inl_validate [OF assms(2)])
next
  case (Cons s pre)
  then obtain est where "estimateServer s t = Inr (est, js_add t (estimatedTime est))"
    using estimateServer_returns [of s t] by auto
  with Cons show ?case by simp
qed


lemma calculateEstimation_fails_first:
  assumes "\<forall>s \<in> set pre. validateServer s = Inr () \<and> manufacturerKey s \<noteq> Throws"
      and "validateServer bad = Inl e"
  shows "calculateEstimation (pre @ bad # post) = Inl e"
  by (simp add: calculateEstimation_def mapServers_stops [OF assms])

lemma fetch_error:
  "calculateEstimation servers = Inl (Error m) \<Longrightarrow>
     fetch \<lparr>httpMethod = ''POST'', parsed = Inr (JArr servers)\<rparr>
       = \<lparr>status = 400, headers = jsonHeaders, payload = ErrorBody m\<rparr>"
  by (simp add: fetch_def tryBlock_def)

lemma manufacturer_factor_outside_prototype:
  assumes "m \<notin> set objectPrototypeNames" and "manufacturersGet (Key m) = Inr v"
  shows "toNumber (orOne v) = round64 (spec_manufacturerFactor m)"
  using assms by (auto simp: spec_manufacturerFactor_def split: if_splits)

lemma find_first_missing:
  "f \<in> set fs \<Longrightarrow> \<not> truthy (getField server f) \<Longrightarrow>
     \<exists>g. find (\<lambda>g. \<not> truthy (getField server g)) fs = Some g"
  by (cases "find (\<lambda>g. \<not> truthy (getField server g)) fs") (auto simp: find_None_iff)

text \<open>The definitions that an evaluation on a concrete batch unfolds.\<close>

lemmas eval_defs =
  calculateEstimation_def estimateServer_def validateServer_def requiredFields_def
  manufacturerKey_def serverTimeOf_def classify_def objectPrototypeNames_def Let_def

text \<open>The definitions that the rounding of a numeral unfolds.\<close>

lemmas round_defs =
  round64_def overflow_def nearest_def quantum_def exponentOf_def roundHalfEven_def pow2_def
  scaleDown.simps scaleUp.simps

section \<open>The claims\<close>

text \<open>
  C8. On the empty array the engine succeeds with a total of 0, an empty breakdown and
  the complexity Low, and the handler answers 200 with that result.
\<close>

theorem empty_batch:
  "calculateEstimation [] = Inr \<lparr>totalTime = Fin 0, breakdownByServer = [], complexity = ''Low''\<rparr>
   \<and> fetch \<lparr>httpMethod = ''POST'', parsed = Inr (JArr [])\<rparr>
       = \<lparr>status = 200, headers = jsonHeaders,
          payload = ResultBody \<lparr>totalTime = Fin 0, breakdownByServer = [], complexity = ''Low''\<rparr>\<rparr>"
  by (simp add: calculateEstimation_def classify_def fetch_def tryBlock_def)

text \<open>
  C9. The rack server of Dell, quantity 1, is estimated at 2.16 hours (the double
  that the literal 2.16 denotes), total 2.16, complexity Low. For the blade server of the manufacturer Unknown, quantity 5, the
  read of the table gives undefined, the factor defaults to 1, and the estimate is
  22.5 hours with complexity High.
\<close>

theorem worked_examples:
  "calculateEstimation [rackDell]
     = Inr \<lparr>totalTime = round64 2.16,
            breakdownByServer =
              [\<lparr>type = Some (JStr ''rack''), manufacturer = Some (JStr ''Dell''),
                model = Some (JStr ''R740''), quantity = Some (JNum 1),
                estimatedTime = round64 2.16\<rparr>],
            complexity = ''Low''\<rparr>
   \<and> manufacturersGet (manufacturerKey bladeUnknown) = Inr PUndefined
   \<and> orOne PUndefined = PNumber 1.0
   \<and> calculateEstimation [bladeUnknown]
     = Inr \<lparr>totalTime = Fin 22.5,
            breakdownByServer =
              [\<lparr>type = Some (JStr ''blade''), manufacturer = Some (JStr ''Unknown''),
                model = Some (JStr ''X''), quantity = Some (JNum 5),
                estimatedTime = Fin 22.5\<rparr>],
            complexity = ''High''\<rparr>"
  by (simp add: rackDell_def bladeUnknown_def eval_defs round_defs)

text \<open>
  C6, as stated, fails: a record whose other fields are valid and whose quantity is 0
  is stopped by the loop over the required fields, with the missing-field message for
  quantity, and not by the positivity test.
\<close>

theorem zero_quantity_counterexample:
  "validateServer rackZero = Inl (Error ''Missing required field: quantity'')
   \<and> validateServer rackZero \<noteq> Inl (Error ''Quantity must be a positive number'')"
  by (simp add: rackZero_def validateServer_def requiredFields_def)

text \<open>
  C6, amended. A record with truthy type, manufacturer and model and the quantity 0 is
  rejected with the message that the field quantity is missing; the positivity test is
  not reached.
\<close>

theorem zero_quantity_is_missing:
  assumes "truthy (getField server ''type'')"
      and "truthy (getField server ''manufacturer'')"
      and "truthy (getField server ''model'')"
      and "getField server ''quantity'' = Some (JNum 0)"
  shows "validateServer server = Inl (Error ''Missing required field: quantity'')"
proof -
  have "isObject server" using assms(4) by (cases server) auto
  then show ?thesis
    using assms by (simp add: validateServer_def requiredFields_def)
qed

theorem zero_quantity_is_missing_witness:
  "truthy (getField rackZero ''type'') \<and> truthy (getField rackZero ''manufacturer'')
   \<and> truthy (getField rackZero ''model'') \<and> getField rackZero ''quantity'' = Some (JNum 0)
   \<and> validateServer rackZero = Inl (Error ''Missing required field: quantity'')"
proof -
  have h: "truthy (getField rackZero ''type'')" "truthy (getField rackZero ''manufacturer'')"
    "truthy (getField rackZero ''model'')" "getField rackZero ''quantity'' = Some (JNum 0)"
    by (simp_all add: rackZero_def)
  from zero_quantity_is_missing [OF h] h show ?thesis by simp
qed

text \<open>
  C1 at a manufacturer name that the table's object inherits from
  \<^verbatim>\<open>Object.prototype\<close>. The record passes validation, the read gives the inherited
  member instead of undefined, the default 1 is not taken, and the estimate is NaN
  where the formula with the factor 1.0 gives 2.4.
\<close>

theorem inherited_name_gives_NaN:
  "validateServer rackConstructor = Inr ()
   \<and> manufacturersGet (manufacturerKey rackConstructor) = Inr (PBuiltin ''constructor'')
   \<and> calculateEstimation [rackConstructor]
     = Inr \<lparr>totalTime = NaN,
            breakdownByServer =
              [\<lparr>type = Some (JStr ''rack''), manufacturer = Some (JStr ''constructor''),
                model = Some (JStr ''X''), quantity = Some (JNum 1),
                estimatedTime = NaN\<rparr>],
            complexity = ''Low''\<rparr>
   \<and> NaN \<noteq> Fin (2 * 1.0 * 1.2 * 1)"
  by (simp add: rackConstructor_def eval_defs round_defs)

text \<open>
  C10 at the same input: the engine succeeds, and neither the estimate of the record
  nor the total is greater than 0; the total is not 0 either.
\<close>

theorem inherited_name_not_positive:
  "\<exists>r. calculateEstimation [rackConstructor] = Inr r
     \<and> map (\<lambda>e. js_gt (estimatedTime e) (Fin 0)) (breakdownByServer r) = [False]
     \<and> \<not> js_gt (totalTime r) (Fin 0) \<and> totalTime r \<noteq> Fin 0"
  by (simp add: rackConstructor_def eval_defs round_defs)

text \<open>
  C5. Let a candidate be an object (or array) in which one of the four required fields
  is absent or falsy. Validation fails with the missing-field message for the first
  such field in the order type, manufacturer, model, quantity. That field is missing
  in the candidate, and it is the given field when no other required field is missing.
  An absent field, null, 0 and the empty string are all falsy.
\<close>

theorem missing_field_reported:
  assumes "isObject server" and "f \<in> set requiredFields" and "\<not> truthy (getField server f)"
  shows "(\<exists>g. find (\<lambda>g. \<not> truthy (getField server g)) requiredFields = Some g
           \<and> g \<in> set requiredFields \<and> \<not> truthy (getField server g)
           \<and> validateServer server = Inl (Error (''Missing required field: '' @ g))
           \<and> ((\<forall>h \<in> set requiredFields. h \<noteq> f \<longrightarrow> truthy (getField server h)) \<longrightarrow> g = f))
         \<and> \<not> truthy None \<and> \<not> truthy (Some JNull) \<and> \<not> truthy (Some (JNum 0))
         \<and> \<not> truthy (Some (JStr []))"
proof -
  obtain g where g: "find (\<lambda>g. \<not> truthy (getField server g)) requiredFields = Some g"
    using find_first_missing [OF assms(2,3)] by blast
  then have mem: "g \<in> set requiredFields" and miss: "\<not> truthy (getField server g)"
    by (auto simp: find_Some_iff)
  have "validateServer server = Inl (Error (''Missing required field: '' @ g))"
    using assms(1) checkFields_first_missing [OF g] by (simp add: validateServer_def)
  with g mem miss have "\<exists>g. find (\<lambda>g. \<not> truthy (getField server g)) requiredFields = Some g
           \<and> g \<in> set requiredFields \<and> \<not> truthy (getField server g)
           \<and> validateServer server = Inl (Error (''Missing required field: '' @ g))
           \<and> ((\<forall>h \<in> set requiredFields. h \<noteq> f \<longrightarrow> truthy (getField server h)) \<longrightarrow> g = f)"
    by blast
  then show ?thesis by simp
qed

theorem missing_field_reported_witness:
  "isObject rackNoManufacturer \<and> ''manufacturer'' \<in> set requiredFields
   \<and> \<not> truthy (getField rackNoManufacturer ''manufacturer'')
   \<and> validateServer rackNoManufacturer = Inl (Error ''Missing required field: manufacturer'')"
proof -
  have h: "isObject rackNoManufacturer" "''manufacturer'' \<in> set requiredFields"
    "\<not> truthy (getField rackNoManufacturer ''manufacturer'')"
    by (simp_all add: rackNoManufacturer_def requiredFields_def)
  from missing_field_reported [OF h] obtain g where
    "find (\<lambda>g. \<not> truthy (getField rackNoManufacturer g)) requiredFields = Some g"
    "validateServer rackNoManufacturer = Inl (Error (''Missing required field: '' @ g))"
    by blast
  moreover have "find (\<lambda>g. \<not> truthy (getField rackNoManufacturer g)) requiredFields
                   = Some ''manufacturer''"
    by (simp add: rackNoManufacturer_def requiredFields_def)
  ultimately show ?thesis using h by simp
qed




text \<open>
  C7. A record of type rack with truthy manufacturer and model and the quantity -1, or
  the string five, is rejected with the message that the quantity must be a positive
  number. A batch in which the records before it are processed fails with that message,
  and the handler answers 400 with it.
\<close>

theorem bad_quantity_fails_batch:
  assumes "getField r ''type'' = Some (JStr ''rack'')"
      and "truthy (getField r ''manufacturer'')"
      and "truthy (getField r ''model'')"
      and "getField r ''quantity'' = Some (JNum (- 1)) \<or> getField r ''quantity'' = Some (JStr ''five'')"
      and "\<forall>s \<in> set pre. validateServer s = Inr () \<and> manufacturerKey s \<noteq> Throws"
  shows "validateServer r = Inl (Error ''Quantity must be a positive number'')
         \<and> calculateEstimation (pre @ r # post) = Inl (Error ''Quantity must be a positive number'')
         \<and> fetch \<lparr>httpMethod = ''POST'', parsed = Inr (JArr (pre @ r # post))\<rparr>
             = \<lparr>status = 400, headers = jsonHeaders,
                payload = ErrorBody ''Quantity must be a positive number''\<rparr>"
proof -
  have "isObject r" using assms(1) by (cases r) auto
  then have v: "validateServer r = Inl (Error ''Quantity must be a positive number'')"
    using assms(1-4) by (auto simp: validateServer_def requiredFields_def)
  have c: "calculateEstimation (pre @ r # post) = Inl (Error ''Quantity must be a positive number'')"
    by (rule calculateEstimation_fails_first [OF assms(5) v])
  from v c fetch_error [OF c] show ?thesis by simp
qed

theorem bad_quantity_fails_batch_witness:
  "calculateEstimation [rackMinusOne] = Inl (Error ''Quantity must be a positive number'')
   \<and> calculateEstimation [rackDell, rackFive, bladeUnknown]
       = Inl (Error ''Quantity must be a positive number'')"
proof -
  have a: "getField rackMinusOne ''type'' = Some (JStr ''rack'')"
    "truthy (getField rackMinusOne ''manufacturer'')" "truthy (getField rackMinusOne ''model'')"
    "getField rackMinusOne ''quantity'' = Some (JNum (- 1))
       \<or> getField rackMinusOne ''quantity'' = Some (JStr ''five'')"
    "\<forall>s \<in> set []. validateServer s = Inr () \<and> manufacturerKey s \<noteq> Throws"
    by (simp_all add: rackMinusOne_def)
  have b: "getField rackFive ''type'' = Some (JStr ''rack'')"
    "truthy (getField rackFive ''manufacturer'')" "truthy (getField rackFive ''model'')"
    "getField rackFive ''quantity'' = Some (JNum (- 1))
       \<or> getField rackFive ''quantity'' = Some (JStr ''five'')"
    "\<forall>s \<in> set [rackDell]. validateServer s = Inr () \<and> manufacturerKey s \<noteq> Throws"
    by (simp_all add: rackFive_def rackDell_def validateServer_def requiredFields_def manufacturerKey_def)
  from bad_quantity_fails_batch [OF a, of "[]"] bad_quantity_fails_batch [OF b, of "[bladeUnknown]"]
  show ?thesis by simp
qed

text \<open>
  C4, as stated, fails: the total is a chain of rounded additions and not the sum of
  the values. For the two rack servers below the total differs from the sum of the two
  estimated times, and the same three records give two different totals in two orders.
\<close>

theorem total_is_not_the_sum:
  "map_sum id (map estimatedTime \<circ> breakdownByServer) (calculateEstimation [rackDell, rackLenovo])
     = Inr [Fin (607985949695017 / 2 ^ 48), Fin (5944751508129055 / 2 ^ 51)]
   \<and> map_sum id totalTime (calculateEstimation [rackDell, rackLenovo])
     = Inr (Fin (1351079888211149 / 2 ^ 48))
   \<and> (1351079888211149 / 2 ^ 48 :: real)
       \<noteq> 607985949695017 / 2 ^ 48 + 5944751508129055 / 2 ^ 51
   \<and> map_sum id totalTime (calculateEstimation [rackDell, bladeLenovo, customDell])
     = Inr (round64 14.31)
   \<and> map_sum id totalTime (calculateEstimation [rackDell, customDell, bladeLenovo])
     = Inr (round64 14.309999999999999)
   \<and> round64 14.31 \<noteq> round64 14.309999999999999"
  by (simp add: rackDell_def rackLenovo_def bladeLenovo_def customDell_def eval_defs round_defs)

text \<open>
  C4, amended. When the engine succeeds with a total that is not NaN, the total equals
  the result of adding the estimated times of the breakdown to 0 one after the other,
  in the order of the breakdown, each addition rounded to the nearest double. The
  breakdown has one entry for each input record.
\<close>

theorem total_is_running_sum:
  assumes "calculateEstimation servers = Inr r" and "totalTime r \<noteq> NaN"
  shows "totalTime r = foldl js_add (Fin 0) (map estimatedTime (breakdownByServer r))
         \<and> js_eq (totalTime r) (foldl js_add (Fin 0) (map estimatedTime (breakdownByServer r)))
         \<and> length (breakdownByServer r) = length servers"
proof -
  from assms(1) obtain b t where m: "mapServers servers (Fin 0) [] = Inr (b, t)"
    and r: "r = \<lparr>totalTime = t, breakdownByServer = b, complexity = classify t\<rparr>"
    by (auto simp: calculateEstimation_def split: sum.splits)
  from mapServers_sum [OF m] have
    t: "t = foldl js_add (Fin 0) (map estimatedTime b)" and l: "length b = length servers"
    by auto
  have "js_eq t t" using assms(2) r by (cases t) simp_all
  with t l r show ?thesis by simp
qed

theorem total_is_running_sum_witness:
  "\<exists>r. calculateEstimation [rackDell, bladeUnknown] = Inr r
      \<and> totalTime r \<noteq> NaN
      \<and> map estimatedTime (breakdownByServer r) = [round64 2.16, Fin 22.5]
      \<and> totalTime r = js_add (js_add (Fin 0) (round64 2.16)) (Fin 22.5)
      \<and> totalTime r = round64 24.66"
proof -
  obtain r where r: "calculateEstimation [rackDell, bladeUnknown] = Inr r"
    and n: "totalTime r \<noteq> NaN"
    and e: "map estimatedTime (breakdownByServer r) = [round64 2.16, Fin 22.5]"
    by (simp add: rackDell_def bladeUnknown_def eval_defs round_defs)
  from total_is_running_sum [OF r n] e
  have t: "totalTime r = js_add (js_add (Fin 0) (round64 2.16)) (Fin 22.5)" by simp
  moreover have "js_add (js_add (Fin 0) (round64 2.16)) (Fin 22.5) = round64 24.66"
    by (simp add: round_defs)
  ultimately show ?thesis using r n e by simp
qed



end
